theory Spec2Isabelle
  imports
    Complex_Main
    "HOL-Library.Log_Nat"
    "HOL-Library.Char_ord"
    "HOL-Library.List_Lexorder"
    "HOL-Library.Multiset"
begin

section \<open>Python and SQLite values used by \<^verbatim>\<open>backend/app.py\<close>\<close>

subsection \<open>Strings\<close>

text \<open>
  A Python \<^verbatim>\<open>str\<close> is modelled as a \<^typ>\<open>string\<close>. \<^verbatim>\<open>str.upper()\<close> is modelled on the
  ASCII letters; every other character is left as it is. TEXT values are compared by
  SQLite's default BINARY collation, which is the lexicographic order on the characters.
\<close>

definition upper_char :: "char \<Rightarrow> char" where
  "upper_char c =
     (if CHR ''a'' \<le> c \<and> c \<le> CHR ''z'' then char_of (of_char c - (32 :: nat)) else c)"

definition upper :: "string \<Rightarrow> string" where
  "upper s = map upper_char s"

subsection \<open>Floats\<close>

text \<open>
  A Python \<^verbatim>\<open>float\<close> is an IEEE 754 binary64 number. A finite float is modelled by the
  rational number it denotes, and every arithmetic operation returns the exact result
  rounded to the nearest binary64 number, ties to the even significand (\<open>rnd64\<close>).
  Gradual underflow is modelled (the quantum never drops below \<open>2 powi - 1074\<close>);
  infinities, NaN, the sign of zero and overflow beyond the largest finite float are not.
\<close>

type_synonym pyfloat = rat

definition ilog2 :: "rat \<Rightarrow> int" where
  \<comment> \<open>\<open>\<lfloor>log 2 \<bar>q\<bar>\<rfloor>\<close> for \<open>q \<noteq> 0\<close>\<close>
  "ilog2 q =
     (if 1 \<le> \<bar>q\<bar> then bitlen \<lfloor>\<bar>q\<bar>\<rfloor> - 1 else - bitlen (\<lceil>1 / \<bar>q\<bar>\<rceil> - 1))"

definition round_half_even :: "rat \<Rightarrow> int" where
  "round_half_even x =
     (let f = \<lfloor>x\<rfloor>; d = x - of_int f
      in if d < 1 / 2 then f
         else if 1 / 2 < d then f + 1
         else if even f then f else f + 1)"

definition rnd64 :: "rat \<Rightarrow> pyfloat" where
  "rnd64 q =
     (if q = 0 then 0
      else let e = max (ilog2 q) (- 1022) - 52
           in of_int (round_half_even (q / (2 powi e))) * (2 powi e))"

definition float_add :: "pyfloat \<Rightarrow> pyfloat \<Rightarrow> pyfloat" where
  "float_add x y = rnd64 (x + y)"

definition float_sub :: "pyfloat \<Rightarrow> pyfloat \<Rightarrow> pyfloat" where
  "float_sub x y = rnd64 (x - y)"

definition float_mul :: "pyfloat \<Rightarrow> pyfloat \<Rightarrow> pyfloat" where
  "float_mul x y = rnd64 (x * y)"

datatype exception = ZeroDivisionError | OverflowError

fun str_py :: "exception \<Rightarrow> string" where
  "str_py ZeroDivisionError = ''float division by zero''"
| "str_py OverflowError = ''Python int too large to convert to SQLite INTEGER''"

definition float_truediv :: "pyfloat \<Rightarrow> pyfloat \<Rightarrow> exception + pyfloat" where
  "float_truediv x y = (if y = 0 then Inl ZeroDivisionError else Inr (rnd64 (x / y)))"

definition float_py :: "rat \<Rightarrow> pyfloat" where
  \<comment> \<open>a decimal literal, \<^verbatim>\<open>float(n)\<close> of a number, the float operand made from an \<^verbatim>\<open>int\<close>\<close>
  "float_py q = rnd64 q"

definition sum_py :: "pyfloat list \<Rightarrow> pyfloat" where
  \<comment> \<open>\<^verbatim>\<open>sum(prices)\<close>: start at \<open>0\<close>, add the items from left to right, each addition
      rounded (CPython from 3.12 on also adds up the rounding errors and corrects the
      sum by them at the end; that correction is not modelled)\<close>
  "sum_py prices = foldl float_add (float_py 0) prices"

definition round_py :: "pyfloat \<Rightarrow> nat \<Rightarrow> pyfloat" where
  \<comment> \<open>\<^verbatim>\<open>round(x, ndigits)\<close>: the closest multiple of \<open>10 ^ - ndigits\<close> of the float's exact
      value, the even one when two are equally close, as the float nearest to it\<close>
  "round_py x ndigits =
     rnd64 (of_int (round_half_even (x * 10 ^ ndigits)) / 10 ^ ndigits)"

subsection \<open>The table \<^verbatim>\<open>stock_prices\<close>\<close>

text \<open>
  The database is the table after \<^verbatim>\<open>CREATE TABLE IF NOT EXISTS\<close>: its rows in rowid order,
  and the largest rowid handed out so far (\<^verbatim>\<open>AUTOINCREMENT\<close>).
\<close>

record row =
  row_id :: nat
  row_ticker :: string
  row_date :: string
  row_price :: pyfloat

record database =
  stock_prices :: "row list"
  sqlite_sequence :: nat

definition empty_database :: database where
  "empty_database = \<lparr>stock_prices = [], sqlite_sequence = 0\<rparr>"

definition row_key :: "row \<Rightarrow> string \<times> string" where
  \<comment> \<open>the columns of \<^verbatim>\<open>UNIQUE(ticker, date)\<close>\<close>
  "row_key r = (row_ticker r, row_date r)"

definition insert_row :: "string \<Rightarrow> string \<Rightarrow> pyfloat \<Rightarrow> database \<Rightarrow> database" where
  "insert_row ticker date price db =
     \<lparr>stock_prices = stock_prices db @
        [\<lparr>row_id = Suc (sqlite_sequence db), row_ticker = ticker, row_date = date,
          row_price = price\<rparr>],
      sqlite_sequence = Suc (sqlite_sequence db)\<rparr>"

definition insert_or_ignore :: "string \<Rightarrow> string \<Rightarrow> pyfloat \<Rightarrow> database \<Rightarrow> database" where
  \<comment> \<open>\<^verbatim>\<open>INSERT OR IGNORE INTO stock_prices (ticker, date, price) VALUES (?, ?, ?)\<close>\<close>
  "insert_or_ignore ticker date price db =
     (if (ticker, date) \<in> set (map row_key (stock_prices db)) then db
      else insert_row ticker date price db)"

definition insert_or_replace :: "string \<Rightarrow> string \<Rightarrow> pyfloat \<Rightarrow> database \<Rightarrow> database" where
  \<comment> \<open>\<^verbatim>\<open>INSERT OR REPLACE INTO stock_prices (ticker, date, price) VALUES (?, ?, ?)\<close>:
      the rows that conflict on \<^verbatim>\<open>UNIQUE(ticker, date)\<close> are deleted, then the row is inserted\<close>
  "insert_or_replace ticker date price db =
     insert_row ticker date price
       (db\<lparr>stock_prices := filter (\<lambda>r. row_key r \<noteq> (ticker, date)) (stock_prices db)\<rparr>)"

definition sqlite_integer :: "int \<Rightarrow> bool" where
  \<comment> \<open>the Python ints that \<^verbatim>\<open>sqlite3\<close> binds to a parameter: those of 64 signed bits\<close>
  "sqlite_integer n = (- (2 ^ 63) \<le> n \<and> n < 2 ^ 63)"

definition sql_limit :: "int \<Rightarrow> 'a list \<Rightarrow> 'a list" where
  \<comment> \<open>\<^verbatim>\<open>LIMIT ?\<close>: a negative limit is no limit\<close>
  "sql_limit n xs = (if n < 0 then xs else take (nat n) xs)"

definition order_by_date_desc :: "row list \<Rightarrow> row list" where
  \<comment> \<open>\<^verbatim>\<open>ORDER BY date DESC\<close>; the rows of one ticker have different dates in a table that
      keeps \<^verbatim>\<open>UNIQUE(ticker, date)\<close>, so that their order does not depend on how ties come out\<close>
  "order_by_date_desc rows = rev (sort_key row_date rows)"

definition select_recent :: "string \<Rightarrow> int \<Rightarrow> database \<Rightarrow> exception + row list" where
  \<comment> \<open>\<^verbatim>\<open>SELECT ... FROM stock_prices WHERE ticker = ? ORDER BY date DESC LIMIT ?\<close>\<close>
  "select_recent ticker days db =
     (if sqlite_integer days
      then Inr (sql_limit days
             (order_by_date_desc (filter (\<lambda>r. row_ticker r = ticker) (stock_prices db))))
      else Inl OverflowError)"

section \<open>The functions of \<^verbatim>\<open>backend/app.py\<close>\<close>

definition sample_data :: "(string \<times> string \<times> pyfloat) list" where
  "sample_data =
     [(''AAPL'', ''2024-10-01'', float_py (15025 / 100)),
      (''AAPL'', ''2024-10-02'', float_py (15230 / 100)),
      (''AAPL'', ''2024-10-03'', float_py (14875 / 100)),
      (''AAPL'', ''2024-10-04'', float_py (15120 / 100)),
      (''GOOGL'', ''2024-10-01'', float_py (275050 / 100)),
      (''GOOGL'', ''2024-10-02'', float_py (278025 / 100)),
      (''GOOGL'', ''2024-10-03'', float_py (276575 / 100)),
      (''GOOGL'', ''2024-10-04'', float_py (279030 / 100)),
      (''TSLA'', ''2024-10-01'', float_py (24580 / 100)),
      (''TSLA'', ''2024-10-02'', float_py (24890 / 100)),
      (''TSLA'', ''2024-10-03'', float_py (24215 / 100)),
      (''TSLA'', ''2024-10-04'', float_py (25045 / 100))]"

definition init_db :: "database \<Rightarrow> database" where
  "init_db db =
     foldl (\<lambda>db (ticker, date, price). insert_or_ignore ticker date price db) db sample_data"

text \<open>
  The functions that only read return the database as well, so that what they leave
  behind can be stated.
\<close>

definition get_historical_prices ::
  "string \<Rightarrow> int \<Rightarrow> database \<Rightarrow> (exception + pyfloat list) \<times> database" where
  "get_historical_prices ticker days db =
     (case select_recent (upper ticker) days db of
        Inl e \<Rightarrow> (Inl e, db)
      | Inr rows \<Rightarrow> (Inr (map row_price rows), db))"

definition calculate_moving_average :: "pyfloat list \<Rightarrow> exception + pyfloat" where
  "calculate_moving_average prices =
     (if prices = [] then Inr (float_py 0)
      else float_truediv (sum_py prices) (float_py (of_nat (length prices))))"

text \<open>
  The dict that \<^verbatim>\<open>predict_stock_price\<close> returns: a key that the dict does not have, or whose
  value is \<^verbatim>\<open>None\<close>, is \<open>None\<close>.
\<close>

record prediction_result =
  res_error :: "string option"
  res_ticker :: string
  res_prediction :: "pyfloat option"
  res_historical_prices :: "pyfloat list option"
  res_moving_average :: "pyfloat option"
  res_method :: "string option"
  res_confidence :: "string option"

definition error_result :: "string \<Rightarrow> string \<Rightarrow> prediction_result" where
  \<comment> \<open>\<^verbatim>\<open>{'error': msg, 'ticker': ticker, 'prediction': None}\<close>\<close>
  "error_result msg ticker =
     \<lparr>res_error = Some msg, res_ticker = ticker, res_prediction = None,
      res_historical_prices = None, res_moving_average = None, res_method = None,
      res_confidence = None\<rparr>"

definition insufficient_data :: "string \<Rightarrow> prediction_result" where
  "insufficient_data ticker =
     error_result
       (''Insufficient data for '' @ ticker @ ''. Need at least 3 days of historical data.'')
       ticker"

definition predicting_error :: "string \<Rightarrow> exception \<Rightarrow> prediction_result" where
  \<comment> \<open>the \<^verbatim>\<open>except Exception as e\<close> branch\<close>
  "predicting_error ticker e =
     error_result (''Error predicting price for '' @ ticker @ '': '' @ str_py e) ticker"

definition predict_stock_price :: "string \<Rightarrow> database \<Rightarrow> prediction_result \<times> database" where
  "predict_stock_price ticker db =
     (case get_historical_prices ticker 3 db of
        (Inl e, db') \<Rightarrow> (predicting_error ticker e, db')
      | (Inr historical_prices, db') \<Rightarrow>
          if length historical_prices < 3 then (insufficient_data ticker, db')
          else
            (case calculate_moving_average historical_prices of
               Inl e \<Rightarrow> (predicting_error ticker e, db')
             | Inr moving_avg \<Rightarrow>
                 let predicted_price =
                       (if 2 \<le> length historical_prices
                        then let recent_trend =
                                   float_sub (historical_prices ! 0) (historical_prices ! 1);
                                 trend_factor = float_py (1 / 10)
                             in float_add moving_avg (float_mul recent_trend trend_factor)
                        else moving_avg)
                 in (\<lparr>res_error = None, res_ticker = upper ticker,
                      res_prediction = Some (round_py predicted_price 2),
                      res_historical_prices = Some historical_prices,
                      res_moving_average = Some (round_py moving_avg 2),
                      res_method = Some ''Moving Average (3-day) with Trend Adjustment'',
                      res_confidence = Some ''Medium (Rule-based prediction)''\<rparr>, db')))"

text \<open>
  The responses of the two routes: the JSON body and the status code. \<open>days\<close> is what
  \<^verbatim>\<open>request.args.get('days', 10, type=int)\<close> finds: \<open>None\<close> when the parameter is absent or
  is not an integer.
\<close>

record historical_body =
  body_ticker :: string
  body_historical_data :: "(string \<times> pyfloat) list"
  body_count :: nat

datatype 'a response = Ok 'a | Error nat string

definition get_historical_data ::
  "string \<Rightarrow> int option \<Rightarrow> database \<Rightarrow> historical_body response \<times> database" where
  "get_historical_data ticker days_arg db =
     (let days = (case days_arg of None \<Rightarrow> 10 | Some n \<Rightarrow> n)
      in case select_recent (upper ticker) days db of
           Inl e \<Rightarrow> (Error 500 (''Error fetching historical data: '' @ str_py e), db)
         | Inr rows \<Rightarrow>
             let data = map (\<lambda>r. (row_date r, row_price r)) rows
             in (Ok \<lparr>body_ticker = upper ticker, body_historical_data = data,
                      body_count = length data\<rparr>, db))"

text \<open>
  The JSON object posted to \<^verbatim>\<open>/add_price\<close>: a field is \<open>None\<close> when the object does not have
  it; the price is the number as it is written in the request.
\<close>

record add_price_data =
  data_ticker :: "string option"
  data_date :: "string option"
  data_price :: "rat option"

definition add_stock_price :: "add_price_data \<Rightarrow> database \<Rightarrow> string response \<times> database" where
  "add_stock_price data db =
     (case (data_ticker data, data_date data, data_price data) of
        (Some ticker, Some date, Some price) \<Rightarrow>
          (Ok ''Stock price added successfully'',
           insert_or_replace (upper ticker) date (float_py price) db)
      | _ \<Rightarrow> (Error 400 ''Missing required fields: ticker, date, price'', db))"

section \<open>The store and the formulas as the specification speaks of them\<close>

definition observations :: "string \<Rightarrow> database \<Rightarrow> row list" where
  \<comment> \<open>the rows that the store holds for a ticker, which every lookup upper-cases\<close>
  "observations ticker db = filter (\<lambda>r. row_ticker r = upper ticker) (stock_prices db)"

definition recent_rows :: "string \<Rightarrow> database \<Rightarrow> row list" where
  \<comment> \<open>the rows that the store holds for a ticker, as \<^verbatim>\<open>ORDER BY date DESC\<close> arranges them\<close>
  "recent_rows ticker db = order_by_date_desc (observations ticker db)"

definition recent_prices :: "string \<Rightarrow> database \<Rightarrow> pyfloat list" where
  \<comment> \<open>the prices that the store holds for a ticker, the most recent date first\<close>
  "recent_prices ticker db = map row_price (recent_rows ticker db)"

definition date_desc :: "row list \<Rightarrow> bool" where
  "date_desc rows = sorted_wrt (\<lambda>a b. row_date b \<le> row_date a) rows"

definition is_float :: "rat \<Rightarrow> bool" where
  \<comment> \<open>the rationals that are binary64 numbers: rounding leaves them as they are\<close>
  "is_float q = (rnd64 q = q)"




definition unique_keys :: "database \<Rightarrow> bool" where
  \<comment> \<open>at most one row for a pair of ticker and date\<close>
  "unique_keys db = distinct (map row_key (stock_prices db))"

definition tickers_upper :: "database \<Rightarrow> bool" where
  \<comment> \<open>every stored ticker is in upper case: \<^verbatim>\<open>upper()\<close> leaves it as it is\<close>
  "tickers_upper db = list_all (\<lambda>r. upper (row_ticker r) = row_ticker r) (stock_prices db)"

text \<open>
  The two operations that write: \<^verbatim>\<open>init_db\<close> with its inserts of the sample rows, and a
  request to \<^verbatim>\<open>/add_price\<close>.
\<close>

datatype write_op = Seed | Add_price add_price_data

fun apply_write :: "write_op \<Rightarrow> database \<Rightarrow> database" where
  "apply_write Seed db = init_db db"
| "apply_write (Add_price data) db = snd (add_stock_price data db)"

definition apply_writes :: "write_op list \<Rightarrow> database \<Rightarrow> database" where
  "apply_writes ws db = foldl (\<lambda>db w. apply_write w db) db ws"



definition add_request :: "string \<Rightarrow> string \<Rightarrow> rat \<Rightarrow> add_price_data" where
  \<comment> \<open>a request to \<^verbatim>\<open>/add_price\<close> that has the three fields\<close>
  "add_request ticker date price =
     \<lparr>data_ticker = Some ticker, data_date = Some date, data_price = Some price\<rparr>"

definition date_price :: "row \<Rightarrow> string \<times> pyfloat" where
  \<comment> \<open>\<^verbatim>\<open>{'date': row[0], 'price': row[1]}\<close>\<close>
  "date_price r = (row_date r, row_price r)"

definition prices_are_floats :: "database \<Rightarrow> bool" where
  "prices_are_floats db = list_all (\<lambda>r. is_float (row_price r)) (stock_prices db)"

fun predict_calls :: "string list \<Rightarrow> database \<Rightarrow> prediction_result list \<times> database" where
  \<comment> \<open>one call of \<^verbatim>\<open>predict_stock_price\<close> after the other, each on the database the last one left\<close>
  "predict_calls [] db = ([], db)"
| "predict_calls (ticker # tickers) db =
     (case predict_stock_price ticker db of
        (r, db') \<Rightarrow> (case predict_calls tickers db' of (rs, db'') \<Rightarrow> (r # rs, db'')))"

section \<open>Strings and floats: basic facts\<close>

lemma upper_char_idem: "upper_char (upper_char c) = upper_char c"
proof (cases "CHR ''a'' \<le> c \<and> c \<le> CHR ''z''")
  case True
  then have r: "97 \<le> (of_char c :: nat)" "(of_char c :: nat) \<le> 122"
    by (simp_all add: less_eq_char_def)
  let ?d = "char_of (of_char c - (32 :: nat))"
  have "(of_char ?d :: nat) = of_char c - 32"
    using r by (simp add: of_char_of)
  then have "\<not> (CHR ''a'' \<le> ?d)"
    using r by (simp add: less_eq_char_def)
  then show ?thesis using True by (simp add: upper_char_def)
next
  case False
  then have "upper_char c = c" by (auto simp: upper_char_def)
  then show ?thesis by simp
qed

lemma upper_idem: "upper (upper s) = upper s"
  by (simp add: upper_def upper_char_idem)


lemma float_py_3: "float_py 3 = 3"
  by code_simp

lemma sqlite_integer_3: "sqlite_integer 3"
  by (simp add: sqlite_integer_def)

section \<open>The rounding of floats\<close>

text \<open>
  \<open>round_half_even\<close> is a nearest integer and the even one at a tie, \<open>ilog2\<close> is the
  exponent of the binade, and rounding to a float is idempotent: what \<open>rnd64\<close> returns, and
  so the result of every operation on floats, is a float.
\<close>

lemma round_half_even_nearest: "\<bar>x - of_int (round_half_even x)\<bar> \<le> 1 / 2"
proof -
  define f where "f = \<lfloor>x\<rfloor>"
  have f: "of_int f \<le> x" "x < of_int f + 1"
    unfolding f_def by linarith+
  consider "x - of_int f < 1 / 2" | "1 / 2 < x - of_int f" | "x - of_int f = 1 / 2"
    by linarith
  then show ?thesis
  proof cases
    case 1
    then have "round_half_even x = f"
      by (simp add: round_half_even_def Let_def f_def)
    then show ?thesis using f 1 by simp
  next
    case 2
    then have "round_half_even x = f + 1"
      by (simp add: round_half_even_def Let_def f_def)
    then show ?thesis using f 2 by simp
  next
    case 3
    then have "round_half_even x = f \<or> round_half_even x = f + 1"
      by (simp add: round_half_even_def Let_def f_def)
    then show ?thesis using 3 by auto
  qed
qed

lemma round_half_even_tie:
  "x - of_int \<lfloor>x\<rfloor> = 1 / 2 \<Longrightarrow> even (round_half_even x)"
  by (simp add: round_half_even_def Let_def)

lemma round_half_even_of_int: "round_half_even (of_int k) = k"
  by (simp add: round_half_even_def Let_def)

lemma ilog2_bounds:
  assumes "q \<noteq> 0"
  shows "2 powi (ilog2 q) \<le> \<bar>q\<bar> \<and> \<bar>q\<bar> < 2 powi (ilog2 q + 1)"
proof (cases "1 \<le> \<bar>q\<bar>")
  case True
  define a where "a = \<lfloor>\<bar>q\<bar>\<rfloor>"
  have a: "1 \<le> a" "of_int a \<le> \<bar>q\<bar>" "\<bar>q\<bar> < of_int a + 1"
    using True unfolding a_def by linarith+
  then have pos: "0 < a" by simp
  from bitlen_bounds [OF pos]
  have b: "2 ^ nat (bitlen a - 1) \<le> a" "a < 2 ^ nat (bitlen a)" by simp_all
  have k: "1 \<le> bitlen a" using pos by (simp add: bitlen_alt_def)
  have "(2 :: rat) powi (bitlen a - 1) = of_int (2 ^ nat (bitlen a - 1))"
    using k by (simp add: power_int_def)
  also have "\<dots> \<le> of_int a" using b(1) by (simp only: of_int_le_iff)
  finally have low: "(2 :: rat) powi (bitlen a - 1) \<le> \<bar>q\<bar>" using a(2) by simp
  have "a + 1 \<le> 2 ^ nat (bitlen a)" using b(2) by simp
  then have "(of_int (a + 1) :: rat) \<le> of_int (2 ^ nat (bitlen a))"
    by (simp only: of_int_le_iff)
  also have "\<dots> = 2 powi (bitlen a)"
    using k by (simp add: power_int_def)
  finally have high: "\<bar>q\<bar> < 2 powi (bitlen a)" using a(3) by simp
  show ?thesis using True low high by (simp add: ilog2_def a_def)
next
  case False
  define r where "r = 1 / \<bar>q\<bar>"
  define m where "m = \<lceil>r\<rceil> - 1"
  have qpos: "0 < \<bar>q\<bar>" using assms by simp
  have r1: "1 < r" using False qpos by (simp add: r_def)
  have m: "of_int m < r" "r \<le> of_int m + 1" unfolding m_def by linarith+
  have mpos: "0 < m" using r1 m(2) by linarith
  from bitlen_bounds [OF mpos]
  have b: "2 ^ nat (bitlen m - 1) \<le> m" "m < 2 ^ nat (bitlen m)" by simp_all
  have k: "1 \<le> bitlen m" using mpos by (simp add: bitlen_alt_def)
  have "(2 :: rat) powi (bitlen m - 1) = of_int (2 ^ nat (bitlen m - 1))"
    using k by (simp add: power_int_def)
  also have "\<dots> \<le> of_int m" using b(1) by (simp only: of_int_le_iff)
  finally have low: "(2 :: rat) powi (bitlen m - 1) < r" using m(1) by simp
  have "m + 1 \<le> 2 ^ nat (bitlen m)" using b(2) by simp
  then have "(of_int (m + 1) :: rat) \<le> of_int (2 ^ nat (bitlen m))"
    by (simp only: of_int_le_iff)
  also have "\<dots> = 2 powi (bitlen m)"
    using k by (simp add: power_int_def)
  finally have high: "r \<le> 2 powi (bitlen m)" using m(2) by simp
  have q: "\<bar>q\<bar> = 1 / r" using qpos by (simp add: r_def)
  have p1: "(2 :: rat) powi (- bitlen m) = 1 / 2 powi (bitlen m)"
    by (simp add: power_int_minus divide_simps)
  have "(2 :: rat) powi (1 - bitlen m) = 2 powi (- (bitlen m - 1))"
    by simp
  also have "\<dots> = 1 / 2 powi (bitlen m - 1)"
    by (simp only: power_int_minus) (simp add: divide_simps)
  finally have p2: "(2 :: rat) powi (1 - bitlen m) = 1 / 2 powi (bitlen m - 1)" .
  have rpos: "0 < r" using r1 by simp
  have "1 / 2 powi (bitlen m) \<le> 1 / r"
    using high rpos by (simp add: frac_le)
  moreover have "1 / r < 1 / 2 powi (bitlen m - 1)"
    using low by (simp add: frac_less2)
  ultimately show ?thesis
    using False by (simp add: ilog2_def r_def [symmetric] m_def [symmetric] q p1 p2)
qed


lemma ilog2_less:
  assumes "q \<noteq> 0" and "\<bar>q\<bar> < 2 powi k"
  shows "ilog2 q < k"
proof (rule ccontr)
  assume "\<not> ilog2 q < k"
  then have "(2 :: rat) powi k \<le> 2 powi (ilog2 q)"
    by (simp add: power_int_increasing)
  with ilog2_bounds [OF assms(1)] assms(2) show False by simp
qed

lemma ilog2_unique:
  assumes "2 powi k \<le> \<bar>q\<bar>" and "\<bar>q\<bar> < 2 powi (k + 1)"
  shows "ilog2 q = k"
proof -
  have "(0 :: rat) < 2 powi k" by simp
  then have "0 < \<bar>q\<bar>" using assms(1) by (rule less_le_trans)
  then have q: "q \<noteq> 0" by simp
  have "ilog2 q < k + 1" using ilog2_less [OF q assms(2)] .
  moreover have "k < ilog2 q + 1"
  proof (rule ccontr)
    assume "\<not> k < ilog2 q + 1"
    then have "(2 :: rat) powi (ilog2 q + 1) \<le> 2 powi k"
      by (simp add: power_int_increasing)
    with ilog2_bounds [OF q] assms(1) show False by simp
  qed
  ultimately show ?thesis by simp
qed

lemma rnd64_scaled_int:
  assumes "q \<noteq> 0" and "max (ilog2 q) (- 1022) - 52 = e'" and "q = of_int k * 2 powi e'"
  shows "rnd64 q = q"
proof -
  have "q / 2 powi e' = of_int k"
    using assms(3) by simp
  then show ?thesis
    using assms by (simp add: rnd64_def Let_def round_half_even_of_int)
qed

lemma rnd64_representable:
  assumes "\<bar>m\<bar> \<le> 2 ^ 53" and "- 1074 \<le> e"
  shows "rnd64 (of_int m * 2 powi e) = of_int m * 2 powi e"
proof (cases "m = 0")
  case True
  then show ?thesis by (simp add: rnd64_def)
next
  case False
  define q :: rat where "q = of_int m * 2 powi e"
  have q0: "q \<noteq> 0" using False by (simp add: q_def)
  have absq: "\<bar>q\<bar> = of_int \<bar>m\<bar> * 2 powi e"
    by (simp add: q_def abs_mult)
  define e' where "e' = max (ilog2 q) (- 1022) - 52"
  show ?thesis
  proof (cases "\<bar>m\<bar> = 2 ^ 53")
    case True
    then have "\<bar>q\<bar> = 2 powi (53 + e)"
      by (simp add: absq power_int_add)
    then have "ilog2 q = 53 + e"
      by (intro ilog2_unique) (simp_all add: power_int_strict_increasing)
    then have e': "e' = e + 1"
      using assms(2) by (simp add: e'_def)
    from True have "m = 2 ^ 53 \<or> m = - (2 ^ 53)" by (auto simp: abs_if split: if_splits)
    then have "q = of_int (m div 2) * 2 powi e'"
      by (auto simp: q_def e' power_int_add)
    then have "rnd64 q = q"
      using q0 e'_def by (intro rnd64_scaled_int [where e' = e' and k = "m div 2"]) simp_all
    then show ?thesis by (simp add: q_def)
  next
    case False
    with assms(1) have "\<bar>m\<bar> < 2 ^ 53" by simp
    then have "(of_int \<bar>m\<bar> :: rat) < of_int (2 ^ 53)"
      by (simp only: of_int_less_iff)
    then have "\<bar>q\<bar> < 2 ^ 53 * 2 powi e"
      by (simp add: absq)
    then have "\<bar>q\<bar> < 2 powi (53 + e)"
      by (simp add: power_int_add)
    then have "ilog2 q < 53 + e"
      by (rule ilog2_less [OF q0])
    then have le: "e' \<le> e"
      using assms(2) by (simp add: e'_def)
    have "(2 :: rat) powi e = 2 powi (e - e') * 2 powi e'"
      by (simp add: power_int_add [symmetric])
    also have "(2 :: rat) powi (e - e') = of_int (2 ^ nat (e - e'))"
      using le by (simp add: power_int_def)
    finally have "q = of_int (m * 2 ^ nat (e - e')) * 2 powi e'"
      by (simp add: q_def)
    then have "rnd64 q = q"
      using q0 e'_def
      by (intro rnd64_scaled_int [where e' = e' and k = "m * 2 ^ nat (e - e')"]) simp_all
    then show ?thesis by (simp add: q_def)
  qed
qed

lemma rnd64_idem: "rnd64 (rnd64 q) = rnd64 q"
proof (cases "q = 0")
  case True
  then show ?thesis by (simp add: rnd64_def)
next
  case False
  define E where "E = max (ilog2 q) (- 1022)"
  define e where "e = E - 52"
  define m where "m = round_half_even (q / 2 powi e)"
  have r: "rnd64 q = of_int m * 2 powi e"
    using False by (simp add: rnd64_def Let_def m_def e_def E_def)
  have "\<bar>q\<bar> < 2 powi (ilog2 q + 1)"
    using ilog2_bounds [OF False] by simp
  also have "\<dots> \<le> 2 powi (E + 1)"
    by (simp add: E_def power_int_increasing)
  finally have "\<bar>q\<bar> / 2 powi e < 2 powi (E + 1) / 2 powi e"
    by (simp add: divide_strict_right_mono)
  also have "\<dots> = 2 powi 53"
    by (simp add: e_def power_int_diff [symmetric])
  finally have "\<bar>q / 2 powi e\<bar> < 2 ^ 53"
    by (simp add: abs_divide)
  moreover have "\<bar>q / 2 powi e - of_int m\<bar> \<le> 1 / 2"
    unfolding m_def by (rule round_half_even_nearest)
  ultimately have "\<bar>(of_int m :: rat)\<bar> < 2 ^ 53 + 1"
    by linarith
  then have "(of_int \<bar>m\<bar> :: rat) < of_int (2 ^ 53 + 1)"
    by simp
  then have "\<bar>m\<bar> < 2 ^ 53 + 1"
    by (simp only: of_int_less_iff)
  then have m: "\<bar>m\<bar> \<le> 2 ^ 53" by simp
  have "- 1074 \<le> e" by (simp add: e_def E_def)
  from rnd64_representable [OF m this] show ?thesis by (simp add: r)
qed

lemma is_float_rnd64: "is_float (rnd64 q)"
  by (simp add: is_float_def rnd64_idem)

lemma is_float_float_py: "is_float (float_py q)"
  by (simp add: float_py_def is_float_rnd64)

section \<open>The queries\<close>

lemma select_recent_upper:
  "select_recent (upper ticker) days db =
     (if sqlite_integer days
      then Inr (sql_limit days (order_by_date_desc (observations ticker db)))
      else Inl OverflowError)"
  by (simp add: select_recent_def observations_def)

lemma mset_order_by_date_desc: "mset (order_by_date_desc rows) = mset rows"
  by (simp add: order_by_date_desc_def)

lemma length_order_by_date_desc: "length (order_by_date_desc rows) = length rows"
  by (simp add: order_by_date_desc_def)

lemma date_desc_order_by_date_desc: "date_desc (order_by_date_desc rows)"
proof -
  have "sorted (map row_date (sort_key row_date rows))"
    by (rule sorted_sort_key)
  then have "sorted_wrt (\<lambda>a b. row_date a \<le> row_date b) (sort_key row_date rows)"
    by (simp add: sorted_map)
  then show ?thesis
    by (simp add: date_desc_def order_by_date_desc_def sorted_wrt_rev)
qed

lemma get_historical_prices_3:
  "get_historical_prices ticker 3 db = (Inr (take 3 (recent_prices ticker db)), db)"
  by (simp add: get_historical_prices_def select_recent_upper sqlite_integer_3 sql_limit_def
      recent_prices_def recent_rows_def take_map)

lemma length_recent_prices:
  "length (recent_prices ticker db) = length (observations ticker db)"
  by (simp add: recent_prices_def recent_rows_def length_order_by_date_desc)

lemma take_3_cases:
  assumes "3 \<le> length xs"
  obtains a b c where "take 3 xs = [a, b, c]"
proof -
  from assms obtain a b c ys where "xs = a # b # c # ys"
    by (metis Suc_le_length_iff numeral_3_eq_3)
  then have "take 3 xs = [a, b, c]" by (simp add: numeral_3_eq_3)
  then show ?thesis using that by blast
qed

section \<open>The two outcomes of a prediction\<close>

lemma predict_insufficient:
  assumes "length (observations ticker db) < 3"
  shows "predict_stock_price ticker db = (insufficient_data ticker, db)"
  using assms
  by (simp add: predict_stock_price_def get_historical_prices_3 length_recent_prices)

lemma calculate_moving_average_3:
  "calculate_moving_average [p0, p1, p2] = Inr (rnd64 (sum_py [p0, p1, p2] / 3))"
  by (simp add: calculate_moving_average_def float_truediv_def float_py_3)

lemma predict_enough:
  assumes "take 3 (recent_prices ticker db) = [p0, p1, p2]"
  shows "predict_stock_price ticker db =
    (\<lparr>res_error = None, res_ticker = upper ticker,
      res_prediction = Some (round_py
        (float_add (rnd64 (sum_py [p0, p1, p2] / 3))
           (float_mul (float_sub p0 p1) (float_py (1 / 10)))) 2),
      res_historical_prices = Some [p0, p1, p2],
      res_moving_average = Some (round_py (rnd64 (sum_py [p0, p1, p2] / 3)) 2),
      res_method = Some ''Moving Average (3-day) with Trend Adjustment'',
      res_confidence = Some ''Medium (Rule-based prediction)''\<rparr>, db)"
  by (simp add: predict_stock_price_def get_historical_prices_3 assms
      calculate_moving_average_3 Let_def)

section \<open>Reading leaves the store as it is\<close>

lemma predict_stock_price_snd: "snd (predict_stock_price ticker db) = db"
  by (simp add: predict_stock_price_def get_historical_prices_def Let_def
      split: sum.splits prod.splits)

lemma predict_calls_eq:
  "predict_calls tickers db = (map (\<lambda>t. fst (predict_stock_price t db)) tickers, db)"
proof (induction tickers)
  case Nil
  show ?case by simp
next
  case (Cons t ts)
  obtain r db' where call: "predict_stock_price t db = (r, db')"
    by (cases "predict_stock_price t db")
  then have "db' = db"
    using predict_stock_price_snd [of t db] by simp
  then show ?case using call Cons.IH by simp
qed

text \<open>
  C9. A call of \<^verbatim>\<open>predict_stock_price\<close> leaves the database exactly as it found it, for every
  ticker and every database; so does any sequence of calls, and each call of the sequence
  returns what it would return as the only call: nothing is kept from one call to the next.
\<close>

theorem predict_side_effect_free:
  "snd (predict_stock_price ticker db) = db
   \<and> snd (predict_calls tickers db) = db
   \<and> fst (predict_calls tickers db) = map (\<lambda>t. fst (predict_stock_price t db)) tickers"
  by (simp add: predict_stock_price_snd predict_calls_eq)

section \<open>The seeded store\<close>

lemma seeded_db:
  "init_db empty_database =
     \<lparr>stock_prices =
        [\<lparr>row_id = 1, row_ticker = ''AAPL'', row_date = ''2024-10-01'',
           row_price = 601 / 4\<rparr>,
         \<lparr>row_id = 2, row_ticker = ''AAPL'', row_date = ''2024-10-02'',
           row_price = 2679289934564557 / 17592186044416\<rparr>,
         \<lparr>row_id = 3, row_ticker = ''AAPL'', row_date = ''2024-10-03'',
           row_price = 595 / 4\<rparr>,
         \<lparr>row_id = 4, row_ticker = ''AAPL'', row_date = ''2024-10-04'',
           row_price = 2659938529915699 / 17592186044416\<rparr>,
         \<lparr>row_id = 5, row_ticker = ''GOOGL'', row_date = ''2024-10-01'',
           row_price = 5501 / 2\<rparr>,
         \<lparr>row_id = 6, row_ticker = ''GOOGL'', row_date = ''2024-10-02'',
           row_price = 11121 / 4\<rparr>,
         \<lparr>row_id = 7, row_ticker = ''GOOGL'', row_date = ''2024-10-03'',
           row_price = 11063 / 4\<rparr>,
         \<lparr>row_id = 8, row_ticker = ''GOOGL'', row_date = ''2024-10-04'',
           row_price = 3067967294983373 / 1099511627776\<rparr>,
         \<lparr>row_id = 9, row_ticker = ''TSLA'', row_date = ''2024-10-01'',
           row_price = 4324159329717453 / 17592186044416\<rparr>,
         \<lparr>row_id = 10, row_ticker = ''TSLA'', row_date = ''2024-10-02'',
           row_price = 8757390212910285 / 35184372088832\<rparr>,
         \<lparr>row_id = 11, row_ticker = ''TSLA'', row_date = ''2024-10-03'',
           row_price = 8519895701310669 / 35184372088832\<rparr>,
         \<lparr>row_id = 12, row_ticker = ''TSLA'', row_date = ''2024-10-04'',
           row_price = 4405962994823987 / 17592186044416\<rparr>],
      sqlite_sequence = 12\<rparr>"
  by code_simp

lemma seeded_AAPL_recent:
  "take 3 (recent_prices ''AAPL'' (init_db empty_database)) =
     [2659938529915699 / 17592186044416, 595 / 4, 2679289934564557 / 17592186044416]"
  unfolding seeded_db by code_simp

lemma float_literals:
  "float_py (1512 / 10) = 2659938529915699 / 17592186044416"
  "float_py (14875 / 100) = 595 / 4"
  "float_py (1523 / 10) = 2679289934564557 / 17592186044416"
  "float_py (15025 / 100) = 601 / 4"
  "float_py (15075 / 100) = 603 / 4"
  "float_py 151 = 151"
  by code_simp+

text \<open>
  No addition of the sum of the three most recent prices of AAPL rounds: the sum of the
  floats is \<open>452.25\<close> exactly, so that a summation which corrects rounding errors has
  nothing to correct here.
\<close>

lemma seeded_AAPL_sum_exact:
  "float_add (float_py (1512 / 10)) (float_py (14875 / 100))
     = float_py (1512 / 10) + float_py (14875 / 100)"
  "sum_py [float_py (1512 / 10), float_py (14875 / 100), float_py (1523 / 10)]
     = float_py (1512 / 10) + float_py (14875 / 100) + float_py (1523 / 10)"
  "float_py (1512 / 10) + float_py (14875 / 100) + float_py (1523 / 10) = 1809 / 4"
  unfolding float_literals by code_simp+

section \<open>The claims about the prediction\<close>

text \<open>
  C1. On the seeded store, \<^verbatim>\<open>predict_stock_price("AAPL")\<close> returns the moving average
  \<^verbatim>\<open>150.75\<close>, the prediction \<^verbatim>\<open>151.0\<close> and the historical prices \<^verbatim>\<open>[151.2, 148.75, 152.3]\<close>,
  the most recent first; each number is the float that Python reads from the literal.
\<close>

theorem predict_AAPL_seeded:
  "fst (predict_stock_price ''AAPL'' (init_db empty_database)) =
     \<lparr>res_error = None, res_ticker = ''AAPL'',
      res_prediction = Some (float_py 151),
      res_historical_prices =
        Some [float_py (1512 / 10), float_py (14875 / 100), float_py (1523 / 10)],
      res_moving_average = Some (float_py (15075 / 100)),
      res_method = Some ''Moving Average (3-day) with Trend Adjustment'',
      res_confidence = Some ''Medium (Rule-based prediction)''\<rparr>"
  unfolding predict_enough [OF seeded_AAPL_recent] float_literals by code_simp





text \<open>
  C3. \<^verbatim>\<open>predict_stock_price\<close> returns the insufficient-data result exactly when the store
  holds fewer than 3 observations for the ticker (none, for a ticker it does not know), and
  it returns a result without an error exactly when the store holds at least 3. The
  insufficient-data result has no prediction, has the error message, and its ticker is
  the string that was passed in, as it was passed.
\<close>

theorem predict_insufficient_iff:
  "(fst (predict_stock_price ticker db) = insufficient_data ticker)
     = (length (observations ticker db) < 3)
   \<and> (res_error (fst (predict_stock_price ticker db)) = None)
     = (3 \<le> length (observations ticker db))
   \<and> res_prediction (insufficient_data ticker) = None
   \<and> res_error (insufficient_data ticker) =
       Some (''Insufficient data for '' @ ticker @ ''. Need at least 3 days of historical data.'')
   \<and> res_ticker (insufficient_data ticker) = ticker"
proof (cases "length (observations ticker db) < 3")
  case True
  then show ?thesis
    by (simp add: predict_insufficient insufficient_data_def error_result_def)
next
  case False
  then have "3 \<le> length (recent_prices ticker db)"
    by (simp add: length_recent_prices)
  then obtain p0 p1 p2 where "take 3 (recent_prices ticker db) = [p0, p1, p2]"
    by (rule take_3_cases)
  then show ?thesis using False
    by (simp add: predict_enough insufficient_data_def error_result_def)
qed

text \<open>
  C6. For a ticker of which the store holds at least 3 observations, in any spelling,
  \<^verbatim>\<open>predict_stock_price\<close> returns what it returns for the upper-case spelling, and the ticker
  of the result is the upper-case spelling.
\<close>

theorem predict_case_insensitive:
  assumes "3 \<le> length (observations ticker db)"
  shows "predict_stock_price ticker db = predict_stock_price (upper ticker) db
    \<and> res_ticker (fst (predict_stock_price ticker db)) = upper ticker"
proof -
  have "observations (upper ticker) db = observations ticker db"
    by (simp add: observations_def upper_idem)
  then have rp: "recent_prices (upper ticker) db = recent_prices ticker db"
    by (simp add: recent_prices_def recent_rows_def)
  from assms have "3 \<le> length (recent_prices ticker db)"
    by (simp add: length_recent_prices)
  then obtain p0 p1 p2 where t: "take 3 (recent_prices ticker db) = [p0, p1, p2]"
    by (rule take_3_cases)
  then have t': "take 3 (recent_prices (upper ticker) db) = [p0, p1, p2]"
    by (simp add: rp)
  show ?thesis
    by (simp add: predict_enough [OF t] predict_enough [OF t'] upper_idem)
qed

theorem predict_case_insensitive_witness:
  "3 \<le> length (observations ''aapl'' (init_db empty_database))
   \<and> upper ''aapl'' = ''AAPL''
   \<and> predict_stock_price ''aapl'' (init_db empty_database)
       = predict_stock_price ''AAPL'' (init_db empty_database)
   \<and> predict_stock_price ''aApL'' (init_db empty_database)
       = predict_stock_price ''AAPL'' (init_db empty_database)
   \<and> res_ticker (fst (predict_stock_price ''aapl'' (init_db empty_database))) = ''AAPL''"
proof -
  have u: "upper ''aapl'' = ''AAPL''" "upper ''aApL'' = ''AAPL''"
    by code_simp+
  have n: "3 \<le> length (observations ''aapl'' (init_db empty_database))"
    "3 \<le> length (observations ''aApL'' (init_db empty_database))"
    unfolding seeded_db by code_simp+
  note lower = predict_case_insensitive [OF n(1), unfolded u]
  note mixed = predict_case_insensitive [OF n(2), unfolded u]
  show ?thesis
    using lower mixed u(1) n(1) by blast
qed

section \<open>The writes\<close>

lemma stock_prices_insert_row:
  "stock_prices (insert_row ticker date price db) =
     stock_prices db @
       [\<lparr>row_id = Suc (sqlite_sequence db), row_ticker = ticker, row_date = date,
         row_price = price\<rparr>]"
  by (simp add: insert_row_def)

lemma stock_prices_insert_or_replace:
  "stock_prices (insert_or_replace ticker date price db) =
     filter (\<lambda>r. row_key r \<noteq> (ticker, date)) (stock_prices db) @
       [\<lparr>row_id = Suc (sqlite_sequence db), row_ticker = ticker, row_date = date,
         row_price = price\<rparr>]"
  by (simp add: insert_or_replace_def insert_row_def)











lemma unique_keys_insert_or_ignore:
  "unique_keys db \<Longrightarrow> unique_keys (insert_or_ignore ticker date price db)"
  by (auto simp: unique_keys_def insert_or_ignore_def stock_prices_insert_row row_key_def)

lemma unique_keys_insert_or_replace:
  "unique_keys db \<Longrightarrow> unique_keys (insert_or_replace ticker date price db)"
  by (auto simp: unique_keys_def stock_prices_insert_or_replace row_key_def
      distinct_map_filter)

lemma tickers_upper_insert_or_ignore:
  "tickers_upper db \<Longrightarrow> upper ticker = ticker \<Longrightarrow>
     tickers_upper (insert_or_ignore ticker date price db)"
  by (simp add: tickers_upper_def insert_or_ignore_def stock_prices_insert_row)

lemma tickers_upper_insert_or_replace:
  "tickers_upper db \<Longrightarrow> tickers_upper (insert_or_replace (upper ticker) date price db)"
  by (simp add: tickers_upper_def stock_prices_insert_or_replace upper_idem list_all_iff)

lemma sample_tickers_upper: "list_all (\<lambda>(ticker, date, price). upper ticker = ticker) sample_data"
  unfolding sample_data_def by code_simp

lemma foldl_insert_or_ignore:
  assumes "unique_keys db" and "tickers_upper db"
    and "list_all (\<lambda>(ticker, date, price). upper ticker = ticker) samples"
  shows "unique_keys (foldl (\<lambda>db (ticker, date, price). insert_or_ignore ticker date price db) db samples)
    \<and> tickers_upper (foldl (\<lambda>db (ticker, date, price). insert_or_ignore ticker date price db) db samples)"
  using assms
proof (induction samples arbitrary: db)
  case Nil
  then show ?case by simp
next
  case (Cons s samples)
  obtain ticker date price where s: "s = (ticker, date, price)"
    by (cases s)
  with Cons.prems have "unique_keys (insert_or_ignore ticker date price db)"
    and "tickers_upper (insert_or_ignore ticker date price db)"
    by (simp_all add: unique_keys_insert_or_ignore tickers_upper_insert_or_ignore)
  with Cons.IH Cons.prems(3) show ?case
    by (simp add: s)
qed

lemma init_db_invariant:
  "unique_keys db \<Longrightarrow> tickers_upper db \<Longrightarrow> unique_keys (init_db db) \<and> tickers_upper (init_db db)"
  unfolding init_db_def by (rule foldl_insert_or_ignore [OF _ _ sample_tickers_upper])

lemma add_stock_price_invariant:
  assumes "unique_keys db" and "tickers_upper db"
  shows "unique_keys (snd (add_stock_price data db)) \<and> tickers_upper (snd (add_stock_price data db))"
  using assms
  by (auto simp: add_stock_price_def unique_keys_insert_or_replace
      tickers_upper_insert_or_replace split: option.splits)

lemma apply_write_invariant:
  "unique_keys db \<Longrightarrow> tickers_upper db \<Longrightarrow>
     unique_keys (apply_write w db) \<and> tickers_upper (apply_write w db)"
  by (cases w) (simp_all add: init_db_invariant add_stock_price_invariant)

text \<open>
  C5. The two properties, at most one row for a pair of ticker and date and every stored
  ticker in upper case, hold of the empty table and are kept by every write: after any
  sequence of \<^verbatim>\<open>init_db\<close> and requests to \<^verbatim>\<open>/add_price\<close>, on a database that has them, the
  database has them.
\<close>

theorem writes_keep_invariant:
  assumes "unique_keys db" and "tickers_upper db"
  shows "unique_keys (apply_writes ws db) \<and> tickers_upper (apply_writes ws db)"
  using assms unfolding apply_writes_def
proof (induction ws arbitrary: db)
  case Nil
  then show ?case by simp
next
  case (Cons w ws)
  from apply_write_invariant [OF Cons.prems]
  have "unique_keys (apply_write w db)" and "tickers_upper (apply_write w db)"
    by simp_all
  then show ?case using Cons.IH by simp
qed


theorem writes_keep_invariant_witness:
  "unique_keys empty_database
   \<and> tickers_upper empty_database
   \<and> unique_keys (apply_writes
         [Seed, Add_price (add_request ''msft'' ''2024-10-05'' (1005 / 10)), Seed,
          Add_price (add_request ''aapl'' ''2024-10-04'' 152)] empty_database)
   \<and> tickers_upper (apply_writes
         [Seed, Add_price (add_request ''msft'' ''2024-10-05'' (1005 / 10)), Seed,
          Add_price (add_request ''aapl'' ''2024-10-04'' 152)] empty_database)
   \<and> length (stock_prices (apply_writes
         [Seed, Add_price (add_request ''msft'' ''2024-10-05'' (1005 / 10)), Seed,
          Add_price (add_request ''aapl'' ''2024-10-04'' 152)] empty_database)) = 13"
proof -
  have u: "unique_keys empty_database"
    by (simp add: unique_keys_def empty_database_def)
  have t: "tickers_upper empty_database"
    by (simp add: tickers_upper_def empty_database_def)
  have n: "length (stock_prices (apply_writes
         [Seed, Add_price (add_request ''msft'' ''2024-10-05'' (1005 / 10)), Seed,
          Add_price (add_request ''aapl'' ''2024-10-04'' 152)] empty_database)) = 13"
    by code_simp
  show ?thesis
    using writes_keep_invariant [OF u t] u t n by simp
qed

text \<open>
  Every price that the writes store is a float: the sample prices are float literals, and
  \<^verbatim>\<open>/add_price\<close> stores \<^verbatim>\<open>float(data['price'])\<close>.
\<close>

lemma prices_are_floats_insert_or_ignore:
  "prices_are_floats db \<Longrightarrow> is_float price \<Longrightarrow>
     prices_are_floats (insert_or_ignore ticker date price db)"
  by (simp add: prices_are_floats_def insert_or_ignore_def stock_prices_insert_row)

lemma prices_are_floats_insert_or_replace:
  "prices_are_floats db \<Longrightarrow> is_float price \<Longrightarrow>
     prices_are_floats (insert_or_replace ticker date price db)"
  by (simp add: prices_are_floats_def stock_prices_insert_or_replace list_all_iff)

lemma sample_prices_floats:
  "list_all (\<lambda>(ticker, date, price). is_float price) sample_data"
  by (simp add: sample_data_def is_float_float_py)

lemma foldl_insert_or_ignore_floats:
  assumes "prices_are_floats db"
    and "list_all (\<lambda>(ticker, date, price). is_float price) samples"
  shows "prices_are_floats
    (foldl (\<lambda>db (ticker, date, price). insert_or_ignore ticker date price db) db samples)"
  using assms
proof (induction samples arbitrary: db)
  case Nil
  then show ?case by simp
next
  case (Cons s samples)
  obtain ticker date price where s: "s = (ticker, date, price)"
    by (cases s)
  with Cons.prems have "prices_are_floats (insert_or_ignore ticker date price db)"
    by (simp add: prices_are_floats_insert_or_ignore)
  with Cons.IH Cons.prems(2) show ?case
    by (simp add: s)
qed

lemma apply_write_floats:
  assumes "prices_are_floats db"
  shows "prices_are_floats (apply_write w db)"
proof (cases w)
  case Seed
  then show ?thesis
    using foldl_insert_or_ignore_floats [OF assms sample_prices_floats]
    by (simp add: init_db_def)
next
  case (Add_price data)
  then show ?thesis
    using assms
    by (auto simp: add_stock_price_def prices_are_floats_insert_or_replace is_float_float_py
        split: option.splits)
qed

lemma apply_writes_floats:
  "prices_are_floats db \<Longrightarrow> prices_are_floats (apply_writes ws db)"
  unfolding apply_writes_def
  by (induction ws arbitrary: db) (simp_all add: apply_write_floats)

lemma reachable_prices_are_floats: "prices_are_floats (apply_writes ws empty_database)"
  by (rule apply_writes_floats) (simp add: prices_are_floats_def empty_database_def)

section \<open>The queries with a limit\<close>

lemma sqlite_integer_nonneg: "0 \<le> n \<Longrightarrow> n < 2 ^ 63 \<Longrightarrow> sqlite_integer n"
  by (simp add: sqlite_integer_def)

lemma mset_recent_rows: "mset (recent_rows ticker db) = mset (observations ticker db)"
  by (simp add: recent_rows_def mset_order_by_date_desc)

lemma length_recent_rows: "length (recent_rows ticker db) = length (observations ticker db)"
  by (simp add: recent_rows_def length_order_by_date_desc)

lemma date_desc_recent_rows: "date_desc (recent_rows ticker db)"
  by (simp add: recent_rows_def date_desc_order_by_date_desc)

lemma date_desc_take_drop:
  assumes "date_desc rows"
  shows "date_desc (take k rows)
    \<and> list_all (\<lambda>r. list_all (\<lambda>left_out. row_date left_out \<le> row_date r) (drop k rows))
        (take k rows)"
proof -
  from assms
  have "sorted_wrt (\<lambda>a b. row_date b \<le> row_date a) (take k rows @ drop k rows)"
    by (simp add: date_desc_def)
  then show ?thesis
    unfolding sorted_wrt_append by (simp add: date_desc_def list_all_iff)
qed

lemma select_recent_rows:
  "select_recent (upper ticker) days db =
     (if sqlite_integer days then Inr (sql_limit days (recent_rows ticker db))
      else Inl OverflowError)"
  by (simp add: select_recent_upper recent_rows_def)

lemma get_historical_prices_nonneg:
  assumes "0 \<le> n" and "n < 2 ^ 63"
  shows "get_historical_prices ticker n db =
    (Inr (map row_price (take (nat n) (recent_rows ticker db))), db)"
  using assms
  by (simp add: get_historical_prices_def select_recent_rows sqlite_integer_nonneg sql_limit_def)

text \<open>
  C7, as the code has it. For every ticker and every \<open>n\<close> from \<open>0\<close> up to the largest
  integer that SQLite binds, \<^verbatim>\<open>get_historical_prices\<close> raises nothing and returns the prices
  of the first \<open>n\<close> rows of the ticker's rows in the order of descending date: at most \<open>n\<close>
  prices, the most recent first, none older than a returned one left in, and all rows of
  the ticker (none, for a ticker that the store does not know) when there are no more
  than \<open>n\<close>.
\<close>

theorem get_recent_nonneg:
  assumes "0 \<le> n" and "n < 2 ^ 63"
  shows "fst (get_historical_prices ticker n db) =
       Inr (map row_price (take (nat n) (recent_rows ticker db)))
    \<and> length (take (nat n) (recent_rows ticker db))
        = min (nat n) (length (observations ticker db))
    \<and> mset (recent_rows ticker db) = mset (observations ticker db)
    \<and> date_desc (recent_rows ticker db)
    \<and> date_desc (take (nat n) (recent_rows ticker db))
    \<and> list_all (\<lambda>r. list_all (\<lambda>left_out. row_date left_out \<le> row_date r)
          (drop (nat n) (recent_rows ticker db))) (take (nat n) (recent_rows ticker db))
    \<and> (if length (observations ticker db) \<le> nat n
        then take (nat n) (recent_rows ticker db) = recent_rows ticker db
        else length (take (nat n) (recent_rows ticker db)) = nat n)"
  using assms date_desc_take_drop [OF date_desc_recent_rows, of "nat n" ticker db]
  by (simp add: get_historical_prices_nonneg length_recent_rows
      date_desc_recent_rows mset_recent_rows min_def)

lemma get_historical_data_ok:
  assumes "sqlite_integer days"
  shows "get_historical_data ticker (Some days) db =
    (Ok \<lparr>body_ticker = upper ticker,
         body_historical_data = map date_price (sql_limit days (recent_rows ticker db)),
         body_count = length (sql_limit days (recent_rows ticker db))\<rparr>, db)"
  using assms
  by (simp add: get_historical_data_def select_recent_rows Let_def date_price_def [abs_def])

lemma get_historical_data_error:
  assumes "\<not> sqlite_integer days"
  shows "get_historical_data ticker (Some days) db =
    (Error 500 (''Error fetching historical data: '' @ str_py OverflowError), db)"
  using assms
  by (simp add: get_historical_data_def select_recent_rows Let_def)

lemma get_historical_data_default:
  "get_historical_data ticker None db = get_historical_data ticker (Some 10) db"
  by (simp add: get_historical_data_def)

lemma get_historical_data_count:
  "(case fst (get_historical_data ticker days_arg db) of
      Ok body \<Rightarrow> body_count body = length (body_historical_data body)
    | Error status msg \<Rightarrow> True)"
proof (cases days_arg)
  case None
  have "sqlite_integer 10" by (simp add: sqlite_integer_def)
  then show ?thesis
    by (simp add: None get_historical_data_default get_historical_data_ok)
next
  case (Some days)
  then show ?thesis
    by (cases "sqlite_integer days")
      (simp_all add: get_historical_data_ok get_historical_data_error)
qed

text \<open>
  C8, as the code has it. When \<open>days\<close> is larger than the number of rows that the store
  holds for the ticker, and fits 64 signed bits, the response has exactly the rows of the
  ticker, each once and none else, in the order of descending date, and their number as
  count. Without the parameter the route answers as for \<open>days = 10\<close>. Whatever the
  parameter, a response that has rows has their number as count.
\<close>

theorem historical_days_beyond_count:
  assumes "int (length (observations ticker db)) < days" and "days < 2 ^ 63"
  shows "fst (get_historical_data ticker (Some days) db) =
       Ok \<lparr>body_ticker = upper ticker,
           body_historical_data = map date_price (recent_rows ticker db),
           body_count = length (observations ticker db)\<rparr>
    \<and> mset (recent_rows ticker db) = mset (observations ticker db)
    \<and> date_desc (recent_rows ticker db)
    \<and> get_historical_data ticker None db = get_historical_data ticker (Some 10) db
    \<and> (case fst (get_historical_data ticker days_arg db) of
          Ok body \<Rightarrow> body_count body = length (body_historical_data body)
        | Error status msg \<Rightarrow> True)"
proof -
  from assms have "sqlite_integer days"
    by (simp add: sqlite_integer_def)
  moreover from assms have "sql_limit days (recent_rows ticker db) = recent_rows ticker db"
    by (simp add: sql_limit_def length_recent_rows)
  ultimately show ?thesis
    using get_historical_data_count [of ticker days_arg db]
    by (simp add: get_historical_data_ok length_recent_rows mset_recent_rows
        date_desc_recent_rows get_historical_data_default)
qed

text \<open>
  C10, as the code has it. Every \<open>days\<close> of 64 signed bits is accepted: a negative one
  returns all rows of the ticker in the order of descending date, with their number as
  count, and \<open>days = 0\<close> returns the empty list with count \<open>0\<close>.
\<close>

theorem historical_any_days:
  assumes "- (2 ^ 63) \<le> days" and "days < 2 ^ 63"
  shows "fst (get_historical_data ticker (Some days) db) =
       Ok \<lparr>body_ticker = upper ticker,
           body_historical_data =
             (if days < 0 then map date_price (recent_rows ticker db)
              else map date_price (take (nat days) (recent_rows ticker db))),
           body_count =
             (if days < 0 then length (observations ticker db)
              else min (nat days) (length (observations ticker db)))\<rparr>
    \<and> mset (recent_rows ticker db) = mset (observations ticker db)
    \<and> date_desc (recent_rows ticker db)
    \<and> fst (get_historical_data ticker (Some 0) db) =
       Ok \<lparr>body_ticker = upper ticker, body_historical_data = [], body_count = 0\<rparr>"
proof -
  from assms have "sqlite_integer days"
    by (simp add: sqlite_integer_def)
  moreover have "sqlite_integer 0"
    by (simp add: sqlite_integer_def)
  ultimately show ?thesis
    by (simp add: get_historical_data_ok sql_limit_def length_recent_rows mset_recent_rows
        date_desc_recent_rows min_def)
qed


lemma seeded_AAPL_rows:
  "map date_price (recent_rows ''AAPL'' (init_db empty_database)) =
     [(''2024-10-04'', float_py (1512 / 10)), (''2024-10-03'', float_py (14875 / 100)),
      (''2024-10-02'', float_py (1523 / 10)), (''2024-10-01'', float_py (15025 / 100))]"
  "length (observations ''AAPL'' (init_db empty_database)) = 4"
  "upper ''AAPL'' = ''AAPL''"
  unfolding seeded_db float_literals by code_simp+

text \<open>
  C7 as it is stated fails for a negative \<open>n\<close>, which is no limit (on the seeded store,
  \<open>n = - 1\<close> returns the four prices of AAPL, more than \<open>n\<close>), and for an \<open>n\<close> that
  does not fit 64 signed bits, which \<^verbatim>\<open>sqlite3\<close> refuses to bind: the call raises
  \<^verbatim>\<open>OverflowError\<close>.
\<close>

theorem get_recent_counterexample:
  "fst (get_historical_prices ''AAPL'' (- 1) (init_db empty_database)) =
     Inr [float_py (1512 / 10), float_py (14875 / 100), float_py (1523 / 10),
          float_py (15025 / 100)]
   \<and> \<not> int (length [float_py (1512 / 10), float_py (14875 / 100), float_py (1523 / 10),
          float_py (15025 / 100)]) \<le> - 1
   \<and> fst (get_historical_prices ''AAPL'' (2 ^ 63) (init_db empty_database)) = Inl OverflowError"
  unfolding seeded_db float_literals by code_simp

theorem get_recent_nonneg_witness:
  "(0 :: int) \<le> 2 \<and> (2 :: int) < 2 ^ 63
   \<and> fst (get_historical_prices ''aapl'' 2 (init_db empty_database)) =
       Inr [float_py (1512 / 10), float_py (14875 / 100)]
   \<and> fst (get_historical_prices ''MSFT'' 2 (init_db empty_database)) = Inr []"
proof -
  have two: "map row_price (take (nat 2) (recent_rows ''aapl'' (init_db empty_database))) =
      [float_py (1512 / 10), float_py (14875 / 100)]"
    unfolding seeded_db float_literals by code_simp
  have none: "map row_price (take (nat 2) (recent_rows ''MSFT'' (init_db empty_database))) = []"
    unfolding seeded_db by code_simp
  have a: "(0 :: int) \<le> 2" "(2 :: int) < 2 ^ 63"
    by simp_all
  from get_recent_nonneg [OF a, of "''aapl''" "init_db empty_database"]
    get_recent_nonneg [OF a, of "''MSFT''" "init_db empty_database"]
  show ?thesis
    unfolding two none using a by blast
qed

text \<open>
  C8 as it is stated fails for \<open>days = 2 ^ 63\<close>, larger than the four rows of AAPL in the
  seeded store: the integer cannot be bound, and the route answers with status 500 and no
  rows.
\<close>

theorem historical_days_beyond_count_counterexample:
  "int (length (observations ''AAPL'' (init_db empty_database))) < 2 ^ 63
   \<and> fst (get_historical_data ''AAPL'' (Some (2 ^ 63)) (init_db empty_database)) =
       Error 500
         ''Error fetching historical data: Python int too large to convert to SQLite INTEGER''"
  unfolding seeded_db by code_simp

theorem historical_days_beyond_count_witness:
  "int (length (observations ''AAPL'' (init_db empty_database))) < 10
   \<and> (10 :: int) < 2 ^ 63
   \<and> fst (get_historical_data ''AAPL'' (Some 10) (init_db empty_database)) =
       Ok \<lparr>body_ticker = ''AAPL'',
           body_historical_data =
             [(''2024-10-04'', float_py (1512 / 10)), (''2024-10-03'', float_py (14875 / 100)),
              (''2024-10-02'', float_py (1523 / 10)), (''2024-10-01'', float_py (15025 / 100))],
           body_count = 4\<rparr>
   \<and> get_historical_data ''AAPL'' None (init_db empty_database) =
       get_historical_data ''AAPL'' (Some 10) (init_db empty_database)"
proof -
  have h: "int (length (observations ''AAPL'' (init_db empty_database))) < 10"
    "(10 :: int) < 2 ^ 63"
    by (simp_all add: seeded_AAPL_rows)
  note claim = historical_days_beyond_count [OF h, unfolded seeded_AAPL_rows]
  show ?thesis
    using claim h by blast
qed

text \<open>
  C10 as it is stated fails for the negative \<open>days = - (2 ^ 63) - 1\<close>: the integer cannot
  be bound, and the route answers with status 500 instead of the rows.
\<close>

theorem historical_any_days_counterexample:
  "- (2 ^ 63) - 1 < (0 :: int)
   \<and> fst (get_historical_data ''AAPL'' (Some (- (2 ^ 63) - 1)) (init_db empty_database)) =
       Error 500
         ''Error fetching historical data: Python int too large to convert to SQLite INTEGER''"
  unfolding seeded_db by code_simp

theorem historical_any_days_witness:
  "- (2 ^ 63) \<le> (- 1 :: int)
   \<and> (- 1 :: int) < 2 ^ 63
   \<and> fst (get_historical_data ''AAPL'' (Some (- 1)) (init_db empty_database)) =
       Ok \<lparr>body_ticker = ''AAPL'',
           body_historical_data =
             [(''2024-10-04'', float_py (1512 / 10)), (''2024-10-03'', float_py (14875 / 100)),
              (''2024-10-02'', float_py (1523 / 10)), (''2024-10-01'', float_py (15025 / 100))],
           body_count = 4\<rparr>
   \<and> fst (get_historical_data ''AAPL'' (Some 0) (init_db empty_database)) =
       Ok \<lparr>body_ticker = ''AAPL'', body_historical_data = [], body_count = 0\<rparr>"
proof -
  have h: "- (2 ^ 63) \<le> (- 1 :: int)" "(- 1 :: int) < 2 ^ 63"
    by simp_all
  note claim = historical_any_days [OF h, of "''AAPL''" "init_db empty_database",
      unfolded seeded_AAPL_rows]
  show ?thesis
    using claim h by simp
qed

end
